theory Spec2Isabelle
  imports Main "HOL-Library.Multiset"
begin

section \<open>Python strings and integer formatting\<close>

text \<open>
  A Python \<^verbatim>\<open>str\<close> is represented by its UTF-8 encoding, one \<^typ>\<open>char\<close> per byte.
  The non-ASCII symbols of the source are therefore short byte sequences; no property below
  counts characters.
\<close>

definition digit_char :: "nat \<Rightarrow> char" where
  "digit_char d = char_of (48 + d)"

definition digit_val :: "char \<Rightarrow> nat" where
  "digit_val c = of_char c - 48"

fun digits :: "nat \<Rightarrow> string" where
  "digits n = (if n < 10 then [digit_char n] else digits (n div 10) @ [digit_char (n mod 10)])"

declare digits.simps [simp del]

text \<open>\<^verbatim>\<open>str(i)\<close> for a Python int.\<close>

definition str_int :: "int \<Rightarrow> string" where
  "str_int i = (if i < 0 then CHR ''-'' # digits (nat (- i)) else digits (nat i))"

text \<open>\<^verbatim>\<open>f"{i:02d}"\<close>: sign-aware zero padding to width two.\<close>

definition fmt_02d :: "int \<Rightarrow> string" where
  "fmt_02d i =
     (if i < 0 then
        (let s = digits (nat (- i)) in CHR ''-'' # replicate (1 - length s) CHR ''0'' @ s)
      else
        (let s = digits (nat i) in replicate (2 - length s) CHR ''0'' @ s))"

text \<open>Reading a decimal numeral back; used to show that formatting loses nothing.\<close>

definition decimal_value :: "string \<Rightarrow> nat" where
  "decimal_value s = foldl (\<lambda>acc c. acc * 10 + digit_val c) 0 s"


text \<open>\<^verbatim>\<open>range(n)\<close> for a Python int \<open>n\<close>: empty when \<open>n \<le> 0\<close>.\<close>

definition range :: "int \<Rightarrow> int list" where
  "range n = map int [0..<nat n]"

section \<open>ANSI colour codes (class Colors)\<close>

definition ESC :: string where "ESC = [CHR 0x1B]"

definition RESET :: string where "RESET = ESC @ ''[0m''"
definition BRIGHT_BLUE :: string where "BRIGHT_BLUE = ESC @ ''[94m''"

definition colored :: "string \<Rightarrow> string \<Rightarrow> string" where
  "colored text color = color @ text @ RESET"

text \<open>The symbols of the messages, as UTF-8.\<close>

definition sym_clipboard :: string where "sym_clipboard = [CHR 0xF0, CHR 0x9F, CHR 0x93, CHR 0x8B]"

section \<open>Data models and custom events\<close>


record 'f worker_result =
  worker_id :: string
  input_value :: int
  output_value :: int
  processing_time :: "'f"

datatype event_type = Info | Success | Error

record event =
  event_type :: event_type
  message :: string

definition create_info_event :: "string \<Rightarrow> event" where
  "create_info_event m = \<lparr>event_type = Info, message = m\<rparr>"


definition create_error_event :: "string \<Rightarrow> event" where
  "create_error_event m = \<lparr>event_type = Error, message = m\<rparr>"

text \<open>What travels along an edge: an int, a WorkerResult, or the list a fan-in collected.\<close>

datatype 'f val = VInt int | VResult "'f worker_result" | VList "'f val list"

text \<open>
  A handler talks to the engine through its context only. Its behaviour is the sequence of
  context calls it makes, in program order.
\<close>

datatype 'f action = AddEvent event | SendMessage "'f val" | YieldOutput string

section \<open>Executors\<close>

text \<open>CheckpointExecutor.process\<close>

definition checkpoint_process :: "int \<Rightarrow> 'f action list" where
  "checkpoint_process number =
     [AddEvent (create_info_event
        (sym_clipboard @ '' Checkpoint received: '' @ colored (str_int number) BRIGHT_BLUE)),
      SendMessage (VInt number)]"














text \<open>Projections of a handler's behaviour.\<close>

fun sent :: "'f action list \<Rightarrow> 'f val list" where
  "sent [] = []"
| "sent (SendMessage v # as) = v # sent as"
| "sent (_ # as) = sent as"

fun emitted :: "'f action list \<Rightarrow> event list" where
  "emitted [] = []"
| "emitted (AddEvent e # as) = e # emitted as"
| "emitted (_ # as) = emitted as"

fun yielded :: "'f action list \<Rightarrow> string list" where
  "yielded [] = []"
| "yielded (YieldOutput s # as) = s # yielded as"
| "yielded (_ # as) = yielded as"

section \<open>The checkpoint is a pass-through\<close>

text \<open>
  C9. For every integer input, CheckpointExecutor.process sends exactly one message, whose
  value is the received number unchanged, emits exactly one event, of kind info, and never
  yields a terminal output.
\<close>

theorem checkpoint_pass_through:
  "sent (checkpoint_process number :: 'f action list) = [VInt number]
   \<and> length (emitted (checkpoint_process number :: 'f action list)) = 1
   \<and> event_type (hd (emitted (checkpoint_process number :: 'f action list))) = Info
   \<and> yielded (checkpoint_process number :: 'f action list) = []"
  by (simp add: checkpoint_process_def create_info_event_def)

section \<open>Node identifiers\<close>

text \<open>
  The executors that create_conditional_fan_out_workflow constructs: the ids it passes to
  the four constructors, in the order of the source.
\<close>

definition worker_ids :: "int \<Rightarrow> string list" where
  "worker_ids num_workers = map (\<lambda>i. ''worker_'' @ fmt_02d i) (range num_workers)"

definition node_ids :: "int \<Rightarrow> string list" where
  "node_ids num_workers = [''checkpoint'', ''splitter''] @ worker_ids num_workers @ [''aggregator'']"

section \<open>Decimal formatting is injective\<close>

lemma digit_val_digit_char: "d < 10 \<Longrightarrow> digit_val (digit_char d) = d"
  by (simp add: digit_val_def digit_char_def)

lemma decimal_value_snoc: "decimal_value (s @ [c]) = decimal_value s * 10 + digit_val c"
  by (simp add: decimal_value_def)

lemma decimal_value_digits: "decimal_value (digits n) = n"
proof (induction n rule: digits.induct)
  case (1 n)
  show ?case
  proof (cases "n < 10")
    case True
    then show ?thesis
      by (subst digits.simps) (simp add: decimal_value_def digit_val_digit_char)
  next
    case False
    with "1" have "decimal_value (digits (n div 10)) = n div 10" by simp
    with False show ?thesis
      by (subst digits.simps) (simp add: decimal_value_snoc digit_val_digit_char)
  qed
qed

lemma foldl_zeros:
  "foldl (\<lambda>acc c. acc * 10 + digit_val c) 0 (replicate k CHR ''0'') = 0"
  by (induction k) (simp_all add: digit_val_def)

lemma decimal_value_zeros: "decimal_value (replicate k CHR ''0'' @ s) = decimal_value s"
  by (simp add: decimal_value_def foldl_zeros)

lemma decimal_value_fmt_02d: "0 \<le> i \<Longrightarrow> decimal_value (fmt_02d i) = nat i"
  by (simp add: fmt_02d_def Let_def decimal_value_zeros decimal_value_digits)

lemma fmt_02d_inj: "0 \<le> i \<Longrightarrow> 0 \<le> j \<Longrightarrow> fmt_02d i = fmt_02d j \<Longrightarrow> i = j"
proof -
  assume i: "0 \<le> i" and j: "0 \<le> j" and eq: "fmt_02d i = fmt_02d j"
  from eq have "decimal_value (fmt_02d i) = decimal_value (fmt_02d j)" by simp
  with i j have "nat i = nat j" by (simp add: decimal_value_fmt_02d)
  with i j show "i = j" by simp
qed

lemma range_nonneg: "i \<in> set (range n) \<Longrightarrow> 0 \<le> i"
  by (auto simp: range_def)

lemma distinct_range: "distinct (range n)"
  by (simp add: range_def distinct_map)

lemma length_range: "length (range n) = nat n"
  by (simp add: range_def)

lemma distinct_worker_ids: "distinct (worker_ids n)"
  unfolding worker_ids_def
  by (auto simp: distinct_map distinct_range inj_on_def dest!: range_nonneg intro: fmt_02d_inj)

lemma length_worker_ids: "length (worker_ids n) = nat n"
  by (simp add: worker_ids_def length_range)

lemma worker_id_prefix: "w \<in> set (worker_ids n) \<Longrightarrow> \<exists>s. w = ''worker_'' @ s"
  by (auto simp: worker_ids_def)

lemma worker_ids_fresh:
  "''checkpoint'' \<notin> set (worker_ids n)" "''splitter'' \<notin> set (worker_ids n)"
  "''aggregator'' \<notin> set (worker_ids n)"
  by (auto dest!: worker_id_prefix)

text \<open>
  C6. Node identifiers are unique within the graph: for every number of workers, the ids
  checkpoint, splitter, worker_00 ... and aggregator are pairwise distinct.
\<close>

theorem node_ids_distinct: "distinct (node_ids num_workers)"
  by (simp add: node_ids_def distinct_worker_ids worker_ids_fresh)

section \<open>The worker's result\<close>



section \<open>The aggregator's summary\<close>




section \<open>The presentation workflow: configuration and GammaAPIExecutor\<close>

text \<open>
  Python truthiness of an optional string, as \<^verbatim>\<open>os.getenv\<close> returns it: None and the empty
  string are falsy.
\<close>

definition falsy :: "string option \<Rightarrow> bool" where
  "falsy k \<longleftrightarrow> (case k of None \<Rightarrow> True | Some s \<Rightarrow> s = [])"

text \<open>
  config/config.py, run once at import: without GAMMA_API_KEY the process prints a message and
  exits with status 1; without the Azure settings the import raises ValueError.
\<close>

record config =
  API_KEY :: string
  API_BASE_URL :: string
  TAVILY_API_KEY :: "string option"
  AZURE_OPENAI_ENDPOINT :: string
  AZURE_OPENAI_API_KEY :: string
  AZURE_OPENAI_DEPLOYMENT :: string

datatype startup = SysExit int | ValueError string | Loaded config

definition load_config :: "(string \<Rightarrow> string option) \<Rightarrow> startup" where
  "load_config getenv =
     (if falsy (getenv ''GAMMA_API_KEY'') then SysExit 1
      else if falsy (getenv ''AZURE_OPENAI_ENDPOINT'') \<or> falsy (getenv ''AZURE_OPENAI_API_KEY'')
              \<or> falsy (getenv ''AZURE_OPENAI_DEPLOYMENT'')
      then ValueError ''Azure OpenAI configuration is missing in environment variables.''
      else Loaded \<lparr>API_KEY = the (getenv ''GAMMA_API_KEY''),
                   API_BASE_URL = ''https://public-api.gamma.app/v0.2'',
                   TAVILY_API_KEY = getenv ''TAVILY_API_KEY'',
                   AZURE_OPENAI_ENDPOINT = the (getenv ''AZURE_OPENAI_ENDPOINT''),
                   AZURE_OPENAI_API_KEY = the (getenv ''AZURE_OPENAI_API_KEY''),
                   AZURE_OPENAI_DEPLOYMENT = the (getenv ''AZURE_OPENAI_DEPLOYMENT'')\<rparr>)"



















section \<open>The missing-key branch of call_gamma_api\<close>

lemma load_config_requires_key:
  "falsy (getenv ''GAMMA_API_KEY'') \<Longrightarrow> load_config getenv = SysExit 1"
  by (simp add: load_config_def)




end
